theory Spec2Isabelle
  imports Complex_Main "HOL-Library.AList"
begin

section \<open>JavaScript numbers\<close>

text \<open>
  Every number of \<^verbatim>\<open>src/index.js\<close> is an IEEE 754 binary64 value. A finite value is
  kept as the rational it denotes; the negative zero, the two infinities and NaN are
  constructors of their own. Each arithmetic operation computes the exact rational
  result and rounds it to the nearest binary64 value, ties to even, as the language
  prescribes.
\<close>

datatype jsnum = Fin rat | NegZero | PosInf | NegInf | NaN

function bitlen :: "int \<Rightarrow> int" where
  \<comment> \<open>number of binary digits of a positive integer\<close>
  "bitlen n = (if n \<le> 0 then 0 else 1 + bitlen (n div 2))"
  by pat_completeness auto
termination
  by (relation "measure nat") auto

declare bitlen.simps [simp del]

definition ilog2 :: "rat \<Rightarrow> int" where
  \<comment> \<open>the integer \<open>e\<close> with \<open>2^e \<le> x < 2^(e+1)\<close>, for \<open>0 < x\<close>\<close>
  "ilog2 x = (if 1 \<le> x then bitlen \<lfloor>x\<rfloor> - 1 else - bitlen (\<lceil>1 / x\<rceil> - 1))"

definition pow2 :: "int \<Rightarrow> rat" where
  "pow2 e = (if 0 \<le> e then 2 ^ nat e else 1 / 2 ^ nat (- e))"

definition roundHalfEven :: "rat \<Rightarrow> int" where
  "roundHalfEven m =
     (let f = \<lfloor>m\<rfloor>; d = m - of_int f
      in if d < 1 / 2 then f else if 1 / 2 < d then f + 1
         else if even f then f else f + 1)"

definition roundPos :: "rat \<Rightarrow> jsnum" where
  \<comment> \<open>nearest binary64 value of a positive rational: 53 significant bits, exponent at
      least -1022 (below it the spacing stays \<open>2^-1074\<close>); Infinity when the rounded
      value \<open>n * q\<close> reaches \<open>2^1024\<close>\<close>
  "roundPos x =
     (let e = max (ilog2 x) (- 1022);
          q = pow2 (e - 52);
          n = roundHalfEven (x / q)
      in if 1024 \<le> e \<or> (e = 1023 \<and> n = 2 ^ 53) then PosInf else Fin (of_int n * q))"

fun neg :: "jsnum \<Rightarrow> jsnum" where
  "neg (Fin x) = (if x = 0 then NegZero else Fin (- x))"
| "neg NegZero = Fin 0"
| "neg PosInf = NegInf"
| "neg NegInf = PosInf"
| "neg NaN = NaN"

definition roundRat :: "rat \<Rightarrow> jsnum" where
  "roundRat x = (if x = 0 then Fin 0 else if 0 < x then roundPos x else neg (roundPos (- x)))"

fun add :: "jsnum \<Rightarrow> jsnum \<Rightarrow> jsnum" where
  "add NaN _ = NaN"
| "add _ NaN = NaN"
| "add PosInf NegInf = NaN"
| "add NegInf PosInf = NaN"
| "add PosInf _ = PosInf"
| "add _ PosInf = PosInf"
| "add NegInf _ = NegInf"
| "add _ NegInf = NegInf"
| "add NegZero y = y"
| "add x NegZero = x"
| "add (Fin x) (Fin y) = roundRat (x + y)"

definition sub :: "jsnum \<Rightarrow> jsnum \<Rightarrow> jsnum" where
  "sub a b = add a (neg b)"

fun isNegative :: "jsnum \<Rightarrow> bool" where
  \<comment> \<open>the sign bit\<close>
  "isNegative (Fin x) = (x < 0)"
| "isNegative NegZero = True"
| "isNegative NegInf = True"
| "isNegative _ = False"

definition Math_abs :: "jsnum \<Rightarrow> jsnum" where
  "Math_abs a = (if isNegative a then neg a else a)"

fun divMagnitude :: "jsnum \<Rightarrow> jsnum \<Rightarrow> jsnum" where
  \<comment> \<open>quotient of two values whose sign bit is clear\<close>
  "divMagnitude PosInf PosInf = NaN"
| "divMagnitude PosInf _ = PosInf"
| "divMagnitude _ PosInf = Fin 0"
| "divMagnitude (Fin x) (Fin y) =
     (if y = 0 then (if x = 0 then NaN else PosInf)
      else if x = 0 then Fin 0 else roundPos (x / y))"
| "divMagnitude _ _ = NaN"

definition divide_num :: "jsnum \<Rightarrow> jsnum \<Rightarrow> jsnum" where
  "divide_num a b =
     (if a = NaN \<or> b = NaN then NaN
      else let m = divMagnitude (Math_abs a) (Math_abs b)
           in if isNegative a \<noteq> isNegative b then neg m else m)"

fun gt_zero :: "jsnum \<Rightarrow> bool" where
  \<comment> \<open>\<^verbatim>\<open>a > 0\<close>\<close>
  "gt_zero (Fin x) = (0 < x)"
| "gt_zero PosInf = True"
| "gt_zero _ = False"

fun lt_zero :: "jsnum \<Rightarrow> bool" where
  \<comment> \<open>\<^verbatim>\<open>a < 0\<close>\<close>
  "lt_zero (Fin x) = (x < 0)"
| "lt_zero NegInf = True"
| "lt_zero _ = False"

fun less_eq_num :: "jsnum \<Rightarrow> jsnum \<Rightarrow> bool" where
  \<comment> \<open>\<^verbatim>\<open>a <= b\<close>: false as soon as one side is NaN, and the two zeros are equal\<close>
  "less_eq_num NaN _ = False"
| "less_eq_num _ NaN = False"
| "less_eq_num NegInf _ = True"
| "less_eq_num _ PosInf = True"
| "less_eq_num PosInf _ = False"
| "less_eq_num _ NegInf = False"
| "less_eq_num NegZero NegZero = True"
| "less_eq_num NegZero (Fin y) = (0 \<le> y)"
| "less_eq_num (Fin x) NegZero = (x \<le> 0)"
| "less_eq_num (Fin x) (Fin y) = (x \<le> y)"

section \<open>JavaScript strings\<close>

text \<open>
  A string is its sequence of UTF-16 code units. \<open>str\<close> turns an ASCII literal into
  one. Only the methods that \<^verbatim>\<open>src/index.js\<close> calls are defined, each for the argument
  shapes it is called with: \<^verbatim>\<open>split\<close> with a one-unit separator, \<^verbatim>\<open>replace\<close> with a
  string pattern (the first occurrence only is replaced).
\<close>

type_synonym jsstring = "int list"

definition str :: "string \<Rightarrow> jsstring" where
  "str s = map of_char s"

definition euro :: jsstring where
  \<comment> \<open>the one code unit U+20AC\<close>
  "euro = [8364]"

definition isWhiteSpace :: "int \<Rightarrow> bool" where
  \<comment> \<open>WhiteSpace and LineTerminator of the language\<close>
  "isWhiteSpace c \<longleftrightarrow>
     c \<in> set [9, 10, 11, 12, 13, 32, 160, 5760, 8232, 8233, 8239, 8287, 12288, 65279]
     \<or> (8192 \<le> c \<and> c \<le> 8202)"

definition trimStart :: "jsstring \<Rightarrow> jsstring" where
  "trimStart s = dropWhile isWhiteSpace s"

definition trim :: "jsstring \<Rightarrow> jsstring" where
  "trim s = rev (dropWhile isWhiteSpace (rev (dropWhile isWhiteSpace s)))"

fun startsWith :: "jsstring \<Rightarrow> jsstring \<Rightarrow> bool" where
  "startsWith s [] = True"
| "startsWith [] (p # ps) = False"
| "startsWith (c # cs) (p # ps) = (c = p \<and> startsWith cs ps)"

definition endsWith :: "jsstring \<Rightarrow> jsstring \<Rightarrow> bool" where
  "endsWith s p = startsWith (rev s) (rev p)"

fun includes_str :: "jsstring \<Rightarrow> jsstring \<Rightarrow> bool" where
  "includes_str [] p = (p = [])"
| "includes_str (c # cs) p = (startsWith (c # cs) p \<or> includes_str cs p)"

fun replace :: "jsstring \<Rightarrow> jsstring \<Rightarrow> jsstring \<Rightarrow> jsstring" where
  "replace [] p r = (if p = [] then r else [])"
| "replace (c # cs) p r =
     (if startsWith (c # cs) p then r @ drop (length p) (c # cs) else c # replace cs p r)"

fun split :: "jsstring \<Rightarrow> int \<Rightarrow> jsstring list" where
  "split [] sep = [[]]"
| "split (c # cs) sep =
     (if c = sep then [] # split cs sep
      else case split cs sep of [] \<Rightarrow> [[c]] | piece # pieces \<Rightarrow> (c # piece) # pieces)"

subsection \<open>parseFloat\<close>

text \<open>
  \<^verbatim>\<open>parseFloat\<close> skips leading white space, reads the longest prefix that is a decimal
  literal (sign, \<^verbatim>\<open>Infinity\<close> or digits with an optional fraction and exponent) and
  ignores what follows; with no such prefix the result is NaN. The value is the decimal
  literal's, rounded to the nearest binary64 value, which is what the engine computes
  for a literal of any length.
\<close>

definition isDigit :: "int \<Rightarrow> bool" where
  "isDigit c \<longleftrightarrow> 48 \<le> c \<and> c \<le> 57"

definition digitsValue :: "jsstring \<Rightarrow> int" where
  "digitsValue ds = foldl (\<lambda>a c. 10 * a + (c - 48)) 0 ds"

definition pow10 :: "int \<Rightarrow> rat" where
  "pow10 e = (if 0 \<le> e then 10 ^ nat e else 1 / 10 ^ nat (- e))"

definition stripSign :: "jsstring \<Rightarrow> bool \<times> jsstring" where
  "stripSign s =
     (case s of [] \<Rightarrow> (False, [])
      | c # cs \<Rightarrow> if c = 45 then (True, cs) else if c = 43 then (False, cs) else (False, s))"

definition exponentPart :: "jsstring \<Rightarrow> int" where
  "exponentPart s =
     (case s of [] \<Rightarrow> 0
      | c # cs \<Rightarrow>
          if c = 101 \<or> c = 69
          then (let (negative, rest) = stripSign cs; ds = takeWhile isDigit rest
                in if ds = [] then 0
                   else if negative then - digitsValue ds else digitsValue ds)
          else 0)"

definition parseFloat :: "jsstring \<Rightarrow> jsnum" where
  "parseFloat input =
     (let (negative, s) = stripSign (trimStart input)
      in if startsWith s (str ''Infinity'') then (if negative then NegInf else PosInf)
         else
           let intDigits = takeWhile isDigit s;
               afterInt = dropWhile isDigit s;
               hasPoint = (afterInt \<noteq> [] \<and> hd afterInt = 46);
               fracDigits = (if hasPoint then takeWhile isDigit (tl afterInt) else []);
               afterFrac = (if hasPoint then dropWhile isDigit (tl afterInt) else afterInt)
           in if intDigits = [] \<and> fracDigits = [] then NaN
              else
                let value = of_int (digitsValue (intDigits @ fracDigits))
                            * pow10 (exponentPart afterFrac - int (length fracDigits))
                in if negative then neg (roundRat value) else roundRat value)"

section \<open>Values that may be missing\<close>

datatype 'a jsval = Undefined | Null | Val 'a

fun toNumber :: "jsnum jsval \<Rightarrow> jsnum" where
  "toNumber Undefined = NaN"
| "toNumber Null = Fin 0"
| "toNumber (Val n) = n"

fun propertyKey :: "jsstring jsval \<Rightarrow> jsstring" where
  "propertyKey Undefined = str ''undefined''"
| "propertyKey Null = str ''null''"
| "propertyKey (Val s) = s"

definition objectPrototypeKeys :: "jsstring list" where
  \<comment> \<open>the properties every object created by \<^verbatim>\<open>{}\<close> inherits; each is an object or a
      function, hence truthy\<close>
  "objectPrototypeKeys = map str
     [''constructor'', ''__defineGetter__'', ''__defineSetter__'', ''hasOwnProperty'',
      ''__lookupGetter__'', ''__lookupSetter__'', ''isPrototypeOf'', ''propertyIsEnumerable'',
      ''toString'', ''valueOf'', ''__proto__'', ''toLocaleString'']"

definition isArrayIndex :: "jsstring \<Rightarrow> bool" where
  \<comment> \<open>the canonical decimal form of an integer from 0 to \<open>2^32 - 2\<close>\<close>
  "isArrayIndex k \<longleftrightarrow>
     (k = [48] \<or> (k \<noteq> [] \<and> list_all isDigit k \<and> hd k \<noteq> 48)) \<and> digitsValue k \<le> 4294967294"

definition ownEntries :: "(jsstring \<times> 'v) list \<Rightarrow> (jsstring \<times> 'v) list" where
  \<comment> \<open>the order in which \<^verbatim>\<open>for ... in\<close> and \<^verbatim>\<open>Object.keys\<close> visit the own properties of
      an object kept in creation order: array indices first, ascending, then the rest\<close>
  "ownEntries obj =
     sort_key (\<lambda>(k, v). digitsValue k) (filter (\<lambda>(k, v). isArrayIndex k) obj)
     @ filter (\<lambda>(k, v). \<not> isArrayIndex k) obj"

section \<open>The record extractor: parseCSV\<close>

record transaction =
  ticker :: "jsstring jsval"
  type :: jsstring
  quantity :: "jsnum jsval"
  pricePerShare :: "jsnum jsval"
  totalAmount :: jsnum

datatype error = TypeError

type_synonym row = "(jsstring \<times> jsstring option) list"

text \<open>
  The inner loop of \<^verbatim>\<open>parseCSV\<close>: \<^verbatim>\<open>row[header[columnIndex]] = values[columnIndex]\<close>.
  A line shorter than the header stores \<^verbatim>\<open>undefined\<close> (\<open>None\<close>); a repeated column name
  keeps the last value.
\<close>

fun buildRow :: "jsstring list \<Rightarrow> jsstring list \<Rightarrow> row \<Rightarrow> row" where
  "buildRow [] values row = row"
| "buildRow (h # hs) [] row = buildRow hs [] (AList.update h None row)"
| "buildRow (h # hs) (v # vs) row = buildRow hs vs (AList.update h (Some v) row)"

definition column :: "row \<Rightarrow> jsstring \<Rightarrow> jsstring option" where
  \<comment> \<open>\<^verbatim>\<open>row[name]\<close>, \<open>None\<close> for \<^verbatim>\<open>undefined\<close>\<close>
  "column row name = (case map_of row name of None \<Rightarrow> None | Some v \<Rightarrow> v)"

definition orElse :: "jsstring option \<Rightarrow> jsstring \<Rightarrow> jsstring" where
  \<comment> \<open>\<^verbatim>\<open>v || d\<close>: the undefined value and the empty string are falsy\<close>
  "orElse v d = (case v of None \<Rightarrow> d | Some s \<Rightarrow> if s = [] then d else s)"

definition stripCurrency :: "jsstring \<Rightarrow> jsstring" where
  \<comment> \<open>\<^verbatim>\<open>.replace('\<euro>', '').replace('EUR ', '')\<close>\<close>
  "stripCurrency s = replace (replace s euro []) (str ''EUR '') []"

definition truthy :: "jsstring option \<Rightarrow> bool" where
  "truthy v \<longleftrightarrow> v \<noteq> None \<and> v \<noteq> Some []"

definition toString :: "jsstring option \<Rightarrow> jsstring" where
  "toString v = (case v of None \<Rightarrow> str ''undefined'' | Some s \<Rightarrow> s)"

definition rowOf :: "jsstring list \<Rightarrow> jsstring \<Rightarrow> row" where
  \<comment> \<open>\<^verbatim>\<open>row\<close>, filled from \<^verbatim>\<open>values = lines[lineIndex].split(',')\<close>\<close>
  "rowOf header line = buildRow header (split line 44) []"

definition rowType :: "jsstring list \<Rightarrow> jsstring \<Rightarrow> jsstring" where
  \<comment> \<open>\<^verbatim>\<open>type = row.Type || ''\<close>\<close>
  "rowType header line = orElse (column (rowOf header line) (str ''Type'')) []"

definition rowTotalAmount :: "jsstring list \<Rightarrow> jsstring \<Rightarrow> jsnum" where
  \<comment> \<open>\<^verbatim>\<open>totalAmount = parseFloat((row['Total Amount'] || '0').replace(...).replace(...))\<close>\<close>
  "rowTotalAmount header line =
     parseFloat (stripCurrency (orElse (column (rowOf header line) (str ''Total Amount'')) (str ''0'')))"

definition parseRow :: "jsstring list \<Rightarrow> jsstring \<Rightarrow> error + transaction list" where
  \<comment> \<open>one turn of the outer loop: the records this line pushes, or the exception thrown
      by \<^verbatim>\<open>row['Price per share'].replace\<close> when that column is undefined\<close>
  "parseRow header line =
     (case (if truthy (column (rowOf header line) (str ''Ticker''))
               \<and> (includes_str (rowType header line) (str ''BUY'')
                   \<or> includes_str (rowType header line) (str ''SELL''))
            then (case column (rowOf header line) (str ''Price per share'') of
                    None \<Rightarrow> Inl TypeError
                  | Some price \<Rightarrow>
                      Inr [\<lparr>ticker = Val (toString (column (rowOf header line) (str ''Ticker''))),
                            type = (if includes_str (rowType header line) (str ''BUY'')
                                    then str ''BUY'' else str ''SELL''),
                            quantity = Val (parseFloat
                              (toString (column (rowOf header line) (str ''Quantity'')))),
                            pricePerShare = Val (parseFloat (stripCurrency price)),
                            totalAmount = rowTotalAmount header line\<rparr>])
            else Inr []) of
        Inl e \<Rightarrow> Inl e
      | Inr buyOrSell \<Rightarrow>
          Inr (buyOrSell
            @ (if rowType header line = str ''DIVIDEND''
               then [\<lparr>ticker = (if truthy (column (rowOf header line) (str ''Ticker''))
                                  then Val (toString (column (rowOf header line) (str ''Ticker'')))
                                  else Null),
                      type = str ''DIVIDEND'', quantity = Undefined,
                      pricePerShare = Undefined, totalAmount = rowTotalAmount header line\<rparr>]
               else [])
            @ (if rowType header line = str ''ROBO MANAGEMENT FEE''
               then [\<lparr>ticker = Undefined, type = str ''FEE'', quantity = Undefined,
                      pricePerShare = Undefined, totalAmount = rowTotalAmount header line\<rparr>]
               else [])
            @ (if rowType header line = str ''CASH TOP-UP''
               then [\<lparr>ticker = Val (str ''EUR''), type = str ''BUY'',
                      quantity = Val (rowTotalAmount header line), pricePerShare = Val (Fin 1),
                      totalAmount = rowTotalAmount header line\<rparr>]
               else [])))"

fun parseLines :: "jsstring list \<Rightarrow> jsstring list \<Rightarrow> transaction list
    \<Rightarrow> error + transaction list" where
  "parseLines header [] transactions = Inr transactions"
| "parseLines header (line # rest) transactions =
     (case parseRow header line of
        Inl e \<Rightarrow> Inl e
      | Inr pushed \<Rightarrow> parseLines header rest (transactions @ pushed))"

definition parseCSV :: "jsstring \<Rightarrow> error + transaction list" where
  \<comment> \<open>the argument is the text that \<^verbatim>\<open>readFileSync(csvPath, 'utf8')\<close> returns\<close>
  "parseCSV content =
     (case split (trim content) 10 of
        [] \<Rightarrow> Inl TypeError
      | first # rest \<Rightarrow> parseLines (split first 44) rest [])"

section \<open>The aggregator: calculateAveragePrices\<close>

record stats =
  boughtQuantity :: jsnum
  soldQuantity :: jsnum
  totalBoughtAmount :: jsnum

record position =
  averagePrice :: jsnum
  totalQuantity :: jsnum

record totals =
  totalInjected :: jsnum
  totalSold :: jsnum
  totalDividends :: jsnum
  totalFees :: jsnum

record accumulator = totals +
  tickerStats :: "(jsstring \<times> stats) list"
  objectPrototype :: "jsstring list"

record summary = totals +
  positions :: "(jsstring \<times> position) list"

text \<open>
  \<^verbatim>\<open>tickerStats\<close> is an object created by \<^verbatim>\<open>{}\<close>: its own properties are kept in
  creation order, and a key of \<open>objectPrototypeKeys\<close> reads as the inherited, truthy
  value. For such a ticker \<^verbatim>\<open>!tickerStats[ticker]\<close> is false, no own property is ever
  created, the two \<^verbatim>\<open>+=\<close> write to the inherited object, and the final loop (which
  visits enumerable properties only) never emits it; \<^verbatim>\<open>totalSold\<close> is still updated.

  For the ticker \<^verbatim>\<open>__proto__\<close> the inherited object is \<^verbatim>\<open>Object.prototype\<close> itself, so
  the writes create enumerable properties that every object inherits from then on, with
  the value NaN (\<^verbatim>\<open>undefined + q\<close>). \<open>objectPrototype\<close> is the list of their names; it
  is part of the state because \<^verbatim>\<open>main\<close> meets them again in its report loop. Inside
  \<^verbatim>\<open>calculateAveragePrices\<close> they change nothing: NaN is falsy, as \<^verbatim>\<open>undefined\<close> is,
  and as the statistics of a ticker it gives a quantity that is not greater than zero.
\<close>

definition written :: "jsstring \<Rightarrow> jsstring list \<Rightarrow> jsstring list \<Rightarrow> jsstring list" where
  \<comment> \<open>the properties of \<^verbatim>\<open>Object.prototype\<close> after \<^verbatim>\<open>tickerStats[key].name += ...\<close>\<close>
  "written key names inherited =
     (if key = str ''__proto__'' then List.union inherited names else inherited)"

definition newStats :: stats where
  "newStats = \<lparr>boughtQuantity = Fin 0, soldQuantity = Fin 0, totalBoughtAmount = Fin 0\<rparr>"

definition step :: "accumulator \<Rightarrow> transaction \<Rightarrow> accumulator" where
  \<comment> \<open>the body of the \<^verbatim>\<open>for ... of\<close> loop\<close>
  "step acc transaction =
     (if ticker transaction = Val (str ''EUR'') \<and> type transaction = str ''BUY''
      then acc\<lparr>totalInjected := add (totalInjected acc) (totalAmount transaction)\<rparr>
      else if type transaction = str ''DIVIDEND''
      then acc\<lparr>totalDividends := add (totalDividends acc) (totalAmount transaction)\<rparr>
      else if type transaction = str ''FEE''
      then acc\<lparr>totalFees := add (totalFees acc) (Math_abs (totalAmount transaction))\<rparr>
      else
        let key = propertyKey (ticker transaction)
        in if key \<in> set objectPrototypeKeys
           then (if type transaction = str ''BUY''
                 then acc\<lparr>objectPrototype :=
                            written key [str ''boughtQuantity'', str ''totalBoughtAmount'']
                              (objectPrototype acc)\<rparr>
                 else if type transaction = str ''SELL''
                 then acc\<lparr>totalSold := add (totalSold acc) (totalAmount transaction),
                          objectPrototype :=
                            written key [str ''soldQuantity''] (objectPrototype acc)\<rparr>
                 else acc)
           else
             let entry = (case map_of (tickerStats acc) key of
                            None \<Rightarrow> newStats | Some existing \<Rightarrow> existing)
             in if type transaction = str ''BUY''
                then acc\<lparr>tickerStats := AList.update key
                       (entry\<lparr>boughtQuantity :=
                                 add (boughtQuantity entry) (toNumber (quantity transaction)),
                              totalBoughtAmount :=
                                 add (totalBoughtAmount entry) (totalAmount transaction)\<rparr>)
                       (tickerStats acc)\<rparr>
                else if type transaction = str ''SELL''
                then acc\<lparr>tickerStats := AList.update key
                       (entry\<lparr>soldQuantity :=
                                 add (soldQuantity entry) (toNumber (quantity transaction))\<rparr>)
                       (tickerStats acc),
                     totalSold := add (totalSold acc) (totalAmount transaction)\<rparr>
                else acc\<lparr>tickerStats := AList.update key entry (tickerStats acc)\<rparr>)"

fun collect :: "(jsstring \<times> stats) list \<Rightarrow> (jsstring \<times> position) list" where
  \<comment> \<open>the \<^verbatim>\<open>for ... in\<close> loop that fills \<^verbatim>\<open>result\<close>\<close>
  "collect [] = []"
| "collect ((name, entry) # rest) =
     (let currentQuantity = sub (boughtQuantity entry) (soldQuantity entry)
      in if gt_zero currentQuantity
         then (name, \<lparr>averagePrice = divide_num (totalBoughtAmount entry) (boughtQuantity entry),
                      totalQuantity = currentQuantity\<rparr>) # collect rest
         else collect rest)"

definition initial :: accumulator where
  "initial = \<lparr>totalInjected = Fin 0, totalSold = Fin 0, totalDividends = Fin 0,
              totalFees = Fin 0, tickerStats = [], objectPrototype = []\<rparr>"

definition calculateAveragePrices :: "transaction list \<Rightarrow> summary" where
  "calculateAveragePrices transactions =
     (let acc = foldl step initial transactions
      in \<lparr>totalInjected = totalInjected acc, totalSold = totalSold acc,
          totalDividends = totalDividends acc, totalFees = totalFees acc,
          positions = collect (ownEntries (tickerStats acc))\<rparr>)"

section \<open>The program: loadTickerToIsin and main\<close>

text \<open>
  What \<^verbatim>\<open>main\<close> writes with \<^verbatim>\<open>console.error\<close> before \<^verbatim>\<open>process.exit(1)\<close> is a list
  of \<open>message\<close>s. The report (number formatting with \<^verbatim>\<open>toFixed\<close>) is left as the data
  that it prints. The environment is the list of entries of \<^verbatim>\<open>process.env\<close>; the
  documents folder is \<open>None\<close> when it does not exist, and otherwise the file names in
  the order of \<^verbatim>\<open>readdirSync\<close>, each with its text; reading the chosen file is taken to
  succeed.

  The three outcomes: \<open>Exit1\<close>, nothing printed but the messages, status 1;
  \<open>Report\<close>, the whole report printed; \<open>ReportAborted\<close>, the heading and the lines of
  the positions printed, then an exception caught by the \<^verbatim>\<open>catch\<close> of \<^verbatim>\<open>main\<close>, which
  writes it as a processing error and exits with status 1. The last one happens when
  \<^verbatim>\<open>for (const ticker in positions)\<close> comes, after the own properties, to an enumerable
  property that \<^verbatim>\<open>positions\<close> inherits from \<^verbatim>\<open>Object.prototype\<close>: its value is the
  number NaN, \<^verbatim>\<open>positions[ticker].averagePrice\<close> is undefined, and \<^verbatim>\<open>.toFixed\<close> throws.
\<close>

definition loadTickerToIsin :: "(jsstring \<times> jsstring) list \<Rightarrow> (jsstring \<times> jsstring) list" where
  \<comment> \<open>an assignment to the key \<^verbatim>\<open>__proto__\<close> with a string value creates no property\<close>
  "loadTickerToIsin env =
     foldl (\<lambda>mapping (key, v).
              if startsWith key (str ''TICKER_'') \<and> replace key (str ''TICKER_'') [] \<noteq> str ''__proto__''
              then AList.update (replace key (str ''TICKER_'') []) v mapping
              else mapping) [] env"

definition hasIsin :: "(jsstring \<times> jsstring) list \<Rightarrow> jsstring \<Rightarrow> bool" where
  \<comment> \<open>\<^verbatim>\<open>tickerToIsin[ticker]\<close> is truthy\<close>
  "hasIsin tickerToIsin name =
     (case map_of tickerToIsin name of
        None \<Rightarrow> name \<in> set objectPrototypeKeys
      | Some isin \<Rightarrow> isin \<noteq> [])"

datatype message =
    NoTickerMappingFound
  | SeeEnvExample
  | DocumentsFolderNotFound
  | NoCsvFileFound
  | MissingIsinMappings
  | MissingTicker jsstring
  | ErrorDuringProcessing error

datatype outcome =
    Exit1 "message list"
  | Report summary
  | ReportAborted "(jsstring \<times> position) list" error

definition report :: "(jsstring \<times> jsstring) list \<Rightarrow> summary \<Rightarrow> jsstring list \<Rightarrow> outcome" where
  \<comment> \<open>\<^verbatim>\<open>main\<close> from the check of the identifiers on; \<open>inherited\<close> are the enumerable
      properties of \<^verbatim>\<open>Object.prototype\<close> at that point\<close>
  "report tickerToIsin result inherited =
     (let missingTickers = filter (\<lambda>name. \<not> hasIsin tickerToIsin name)
                             (map fst (ownEntries (positions result)))
      in if missingTickers \<noteq> []
         then Exit1 (MissingIsinMappings # map MissingTicker missingTickers)
         else if list_ex (\<lambda>key. key \<notin> set (map fst (positions result))) inherited
         then ReportAborted (ownEntries (positions result)) TypeError
         else Report result)"

definition main :: "(jsstring \<times> jsstring) list \<Rightarrow> (jsstring \<times> jsstring) list option \<Rightarrow> outcome" where
  "main env documents =
     (let tickerToIsin = loadTickerToIsin env
      in if tickerToIsin = [] then Exit1 [NoTickerMappingFound, SeeEnvExample]
         else case documents of
           None \<Rightarrow> Exit1 [DocumentsFolderNotFound]
         | Some files \<Rightarrow>
             (case find (\<lambda>(file, content). endsWith file (str ''.csv'')) files of
                None \<Rightarrow> Exit1 [NoCsvFileFound]
              | Some (csvFile, content) \<Rightarrow>
                  (case parseCSV content of
                     Inl e \<Rightarrow> Exit1 [ErrorDuringProcessing e]
                   | Inr transactions \<Rightarrow>
                       report tickerToIsin (calculateAveragePrices transactions)
                         (objectPrototype (foldl step initial transactions)))))"

section \<open>Vocabulary of the properties\<close>

text \<open>
  The branch of the loop body that a record takes is its kind. A record with ticker
  \<^verbatim>\<open>'EUR'\<close> and type \<^verbatim>\<open>'BUY'\<close> is a cash top-up whatever row it came from; a Buy record
  is a record of type \<^verbatim>\<open>'BUY'\<close> that is not one. The sums are those of the code: a
  left fold of the floating-point addition, from zero, in the order of the records.
\<close>

datatype kind = CashTopUp | Dividend | Fee | Buy | Sell | Other

definition kindOf :: "transaction \<Rightarrow> kind" where
  "kindOf t =
     (if ticker t = Val (str ''EUR'') \<and> type t = str ''BUY'' then CashTopUp
      else if type t = str ''DIVIDEND'' then Dividend
      else if type t = str ''FEE'' then Fee
      else if type t = str ''BUY'' then Buy
      else if type t = str ''SELL'' then Sell
      else Other)"

definition sumOf :: "jsnum list \<Rightarrow> jsnum" where
  "sumOf xs = foldl add (Fin 0) xs"

definition ofKind :: "kind \<Rightarrow> transaction list \<Rightarrow> transaction list" where
  "ofKind k ts = filter (\<lambda>t. kindOf t = k) ts"

definition ofType :: "jsstring \<Rightarrow> transaction list \<Rightarrow> transaction list" where
  "ofType name ts = filter (\<lambda>t. type t = name) ts"

definition ofTicker :: "jsstring \<Rightarrow> transaction list \<Rightarrow> transaction list" where
  "ofTicker name ts = filter (\<lambda>t. propertyKey (ticker t) = name) ts"

definition quantities :: "transaction list \<Rightarrow> jsnum list" where
  "quantities ts = map (\<lambda>t. toNumber (quantity t)) ts"

definition amounts :: "transaction list \<Rightarrow> jsnum list" where
  "amounts ts = map totalAmount ts"

definition positionOf :: "stats \<Rightarrow> position option" where
  "positionOf entry =
     (if gt_zero (sub (boughtQuantity entry) (soldQuantity entry))
      then Some \<lparr>averagePrice = divide_num (totalBoughtAmount entry) (boughtQuantity entry),
                 totalQuantity = sub (boughtQuantity entry) (soldQuantity entry)\<rparr>
      else None)"

definition entryOf :: "accumulator \<Rightarrow> jsstring \<Rightarrow> stats" where
  "entryOf acc name = (case map_of (tickerStats acc) name of None \<Rightarrow> newStats | Some e \<Rightarrow> e)"

definition stepEntry :: "jsstring \<Rightarrow> stats \<Rightarrow> transaction \<Rightarrow> stats" where
  "stepEntry name e t =
     (if propertyKey (ticker t) = name \<and> kindOf t = Buy
      then e\<lparr>boughtQuantity := add (boughtQuantity e) (toNumber (quantity t)),
             totalBoughtAmount := add (totalBoughtAmount e) (totalAmount t)\<rparr>
      else if propertyKey (ticker t) = name \<and> kindOf t = Sell
      then e\<lparr>soldQuantity := add (soldQuantity e) (toNumber (quantity t))\<rparr>
      else e)"

definition wellFormed :: "accumulator \<Rightarrow> bool" where
  "wellFormed acc \<longleftrightarrow>
     distinct (map fst (tickerStats acc))
     \<and> (\<forall>name \<in> set objectPrototypeKeys. map_of (tickerStats acc) name = None)"

definition statsOf :: "jsstring \<Rightarrow> transaction list \<Rightarrow> stats" where
  "statsOf name ts =
     \<lparr>boughtQuantity = sumOf (quantities (ofTicker name (ofKind Buy ts))),
      soldQuantity = sumOf (quantities (ofTicker name (ofKind Sell ts))),
      totalBoughtAmount = sumOf (amounts (ofTicker name (ofKind Buy ts)))\<rparr>"

section \<open>Example inputs\<close>

text \<open>The records of the scenario of the specification.\<close>

definition buyA :: transaction where
  "buyA = \<lparr>ticker = Val (str ''TICK_A''), type = str ''BUY'', quantity = Val (Fin 10),
            pricePerShare = Val (Fin 5), totalAmount = Fin 50\<rparr>"

definition sellA :: transaction where
  "sellA = \<lparr>ticker = Val (str ''TICK_A''), type = str ''SELL'', quantity = Val (Fin 4),
             pricePerShare = Val (Fin 6), totalAmount = Fin 24\<rparr>"

definition dividendA :: transaction where
  "dividendA = \<lparr>ticker = Val (str ''TICK_A''), type = str ''DIVIDEND'', quantity = Undefined,
                 pricePerShare = Undefined, totalAmount = Fin 1\<rparr>"

definition cashTopUp100 :: transaction where
  "cashTopUp100 = \<lparr>ticker = Val (str ''EUR''), type = str ''BUY'', quantity = Val (Fin 100),
                    pricePerShare = Val (Fin 1), totalAmount = Fin 100\<rparr>"

definition scenario :: "transaction list" where
  "scenario = [buyA, sellA, dividendA, cashTopUp100]"

text \<open>A sale of everything that was bought.\<close>

definition sellAllA :: transaction where
  "sellAllA = \<lparr>ticker = Val (str ''TICK_A''), type = str ''SELL'', quantity = Val (Fin 10),
                pricePerShare = Val (Fin 6), totalAmount = Fin 60\<rparr>"

text \<open>A second ticker, a dividend taken back, and a sale with a negative quantity.\<close>

definition buyB :: transaction where
  "buyB = \<lparr>ticker = Val (str ''TICK_B''), type = str ''BUY'', quantity = Val (Fin 2),
            pricePerShare = Val (Fin 7), totalAmount = Fin 14\<rparr>"

definition negativeDividend :: transaction where
  "negativeDividend = \<lparr>ticker = Val (str ''TICK_A''), type = str ''DIVIDEND'',
                        quantity = Undefined, pricePerShare = Undefined, totalAmount = Fin (- 1)\<rparr>"

definition sellEurNegative :: transaction where
  "sellEurNegative = \<lparr>ticker = Val (str ''EUR''), type = str ''SELL'', quantity = Val (Fin (- 1)),
                       pricePerShare = Val (Fin 1), totalAmount = Fin (- 1)\<rparr>"

text \<open>A fee whose amount did not parse.\<close>

definition feeNaN :: transaction where
  "feeNaN = \<lparr>ticker = Undefined, type = str ''FEE'', quantity = Undefined,
              pricePerShare = Undefined, totalAmount = NaN\<rparr>"

text \<open>Three purchases of fractional shares, as the extractor reads them.\<close>

definition buyTenth :: transaction where
  "buyTenth = \<lparr>ticker = Val (str ''TICK_A''), type = str ''BUY'',
                quantity = Val (parseFloat (str ''0.1'')), pricePerShare = Val (Fin 10),
                totalAmount = Fin 1\<rparr>"

definition buyTwoTenths :: transaction where
  "buyTwoTenths = \<lparr>ticker = Val (str ''TICK_A''), type = str ''BUY'',
                    quantity = Val (parseFloat (str ''0.2'')), pricePerShare = Val (Fin 5),
                    totalAmount = Fin 1\<rparr>"

definition buyThreeTenths :: transaction where
  "buyThreeTenths = \<lparr>ticker = Val (str ''TICK_A''), type = str ''BUY'',
                      quantity = Val (parseFloat (str ''0.3'')), pricePerShare = Val (Fin 3),
                      totalAmount = Fin 1\<rparr>"

text \<open>A statement export and an environment.\<close>

definition csvHeader :: jsstring where
  "csvHeader = str ''Type,Ticker,Quantity,Price per share,Total Amount''"

definition sellOnlyCsv :: jsstring where
  "sellOnlyCsv = csvHeader @ [10] @ str ''SELL - MARKET,TICK_A,4,'' @ euro @ str ''6,'' @ euro @ str ''24''"



definition protoRowCsv :: jsstring where
  "protoRowCsv = csvHeader @ [10] @ str ''SELL - MARKET,__proto__,4,6,24''"


definition threeTickersCsv :: jsstring where
  "threeTickersCsv = csvHeader @ [10] @ str ''BUY - MARKET,TICK_B,2,EUR 7,EUR 14''
                     @ [10] @ str ''BUY - MARKET,TICK_A,10,EUR 5,EUR 50''
                     @ [10] @ str ''BUY - MARKET,TICK_C,1,EUR 3,EUR 3''"

definition exampleEnv :: "(jsstring \<times> jsstring) list" where
  "exampleEnv = [(str ''HOME'', str ''/root''), (str ''TICKER_TICK_A'', str ''IE00B4L5Y983'')]"

definition exampleFiles :: "jsstring \<Rightarrow> (jsstring \<times> jsstring) list" where
  "exampleFiles content = [(str ''statement.pdf'', []), (str ''export.csv'', content)]"

section \<open>Arithmetic facts\<close>

lemma pow2_pos: "0 < pow2 e"
  by (simp add: pow2_def)

lemma roundHalfEven_nonneg: "0 \<le> m \<Longrightarrow> 0 \<le> roundHalfEven m"
  by (simp add: roundHalfEven_def Let_def)

lemma roundPos_cases:
  assumes "0 < x"
  shows "roundPos x = PosInf \<or> (\<exists>r. roundPos x = Fin r \<and> 0 \<le> r)"
proof -
  have "0 \<le> x / pow2 (max (ilog2 x) (- 1022) - 52)"
    using assms pow2_pos [of "max (ilog2 x) (- 1022) - 52"] by simp
  then have "0 \<le> roundHalfEven (x / pow2 (max (ilog2 x) (- 1022) - 52))"
    by (rule roundHalfEven_nonneg)
  then show ?thesis
    using pow2_pos [of "max (ilog2 x) (- 1022) - 52"]
    by (simp add: roundPos_def Let_def)
qed

lemma gt_zero_roundRat: "gt_zero (roundRat x) \<Longrightarrow> 0 < x"
  using roundPos_cases [of "- x"]
  by (cases "x = 0"; cases "0 < x") (auto simp: roundRat_def split: if_splits)

lemma lt_zero_roundRat: "lt_zero (roundRat x) \<Longrightarrow> x < 0"
  using roundPos_cases [of x]
  by (cases "x = 0"; cases "0 < x") (auto simp: roundRat_def split: if_splits)

lemma not_gt_zero_sub: "less_eq_num b s \<Longrightarrow> \<not> gt_zero (sub b s)"
  by (cases b; cases s) (auto simp: sub_def dest: gt_zero_roundRat split: if_splits)

lemma not_lt_zero_add: "\<not> lt_zero a \<Longrightarrow> \<not> lt_zero b \<Longrightarrow> \<not> lt_zero (add a b)"
  by (cases a; cases b) (auto dest: lt_zero_roundRat)

lemma not_lt_zero_abs: "\<not> lt_zero (Math_abs a)"
  by (cases a) (auto simp: Math_abs_def)

section \<open>Facts about the aggregator\<close>

lemma str_neq [simp]:
  "str ''BUY'' \<noteq> str ''DIVIDEND''" "str ''BUY'' \<noteq> str ''FEE''" "str ''BUY'' \<noteq> str ''SELL''"
  "str ''SELL'' \<noteq> str ''DIVIDEND''" "str ''SELL'' \<noteq> str ''FEE''" "str ''SELL'' \<noteq> str ''BUY''"
  "str ''DIVIDEND'' \<noteq> str ''FEE''" "str ''FEE'' \<noteq> str ''DIVIDEND''"
  "str ''DIVIDEND'' \<noteq> str ''BUY''" "str ''FEE'' \<noteq> str ''BUY''"
  "str ''DIVIDEND'' \<noteq> str ''SELL''" "str ''FEE'' \<noteq> str ''SELL''"
  by (simp_all add: str_def)

lemma step_CashTopUp:
  "kindOf t = CashTopUp \<Longrightarrow> step acc t = acc\<lparr>totalInjected := add (totalInjected acc) (totalAmount t)\<rparr>"
  by (auto simp: kindOf_def step_def split: if_splits)

lemma step_Dividend:
  "kindOf t = Dividend \<Longrightarrow> step acc t = acc\<lparr>totalDividends := add (totalDividends acc) (totalAmount t)\<rparr>"
  by (auto simp: kindOf_def step_def split: if_splits)

lemma step_Fee:
  "kindOf t = Fee \<Longrightarrow> step acc t = acc\<lparr>totalFees := add (totalFees acc) (Math_abs (totalAmount t))\<rparr>"
  by (auto simp: kindOf_def step_def split: if_splits)

lemma step_Buy:
  "kindOf t = Buy \<Longrightarrow> step acc t =
     (if propertyKey (ticker t) \<in> set objectPrototypeKeys
      then acc\<lparr>objectPrototype := written (propertyKey (ticker t))
                  [str ''boughtQuantity'', str ''totalBoughtAmount''] (objectPrototype acc)\<rparr>
      else acc\<lparr>tickerStats := AList.update (propertyKey (ticker t))
             ((entryOf acc (propertyKey (ticker t)))
                \<lparr>boughtQuantity := add (boughtQuantity (entryOf acc (propertyKey (ticker t)))) (toNumber (quantity t)),
                 totalBoughtAmount := add (totalBoughtAmount (entryOf acc (propertyKey (ticker t)))) (totalAmount t)\<rparr>)
             (tickerStats acc)\<rparr>)"
  by (auto simp: kindOf_def step_def entryOf_def Let_def split: if_splits)

lemma step_Sell:
  "kindOf t = Sell \<Longrightarrow> step acc t =
     (if propertyKey (ticker t) \<in> set objectPrototypeKeys
      then acc\<lparr>totalSold := add (totalSold acc) (totalAmount t),
               objectPrototype := written (propertyKey (ticker t)) [str ''soldQuantity'']
                  (objectPrototype acc)\<rparr>
      else acc\<lparr>tickerStats := AList.update (propertyKey (ticker t))
             ((entryOf acc (propertyKey (ticker t)))
                \<lparr>soldQuantity := add (soldQuantity (entryOf acc (propertyKey (ticker t)))) (toNumber (quantity t))\<rparr>)
             (tickerStats acc),
           totalSold := add (totalSold acc) (totalAmount t)\<rparr>)"
  by (auto simp: kindOf_def step_def entryOf_def Let_def split: if_splits)

lemma step_Other:
  "kindOf t = Other \<Longrightarrow> step acc t =
     (if propertyKey (ticker t) \<in> set objectPrototypeKeys then acc
      else acc\<lparr>tickerStats := AList.update (propertyKey (ticker t))
             (entryOf acc (propertyKey (ticker t))) (tickerStats acc)\<rparr>)"
  by (auto simp: kindOf_def step_def entryOf_def Let_def split: if_splits)

lemmas step_kind = step_CashTopUp step_Dividend step_Fee step_Buy step_Sell step_Other

lemma entryOf_update:
  "entryOf (acc\<lparr>tickerStats := AList.update k e (tickerStats acc)\<rparr>) name
     = (if name = k then e else entryOf acc name)"
  by (simp add: entryOf_def update_conv')

lemma entryOf_totals [simp]:
  "entryOf (acc\<lparr>totalInjected := a\<rparr>) name = entryOf acc name"
  "entryOf (acc\<lparr>totalSold := a\<rparr>) name = entryOf acc name"
  "entryOf (acc\<lparr>totalDividends := a\<rparr>) name = entryOf acc name"
  "entryOf (acc\<lparr>totalFees := a\<rparr>) name = entryOf acc name"
  "entryOf (acc\<lparr>objectPrototype := b\<rparr>) name = entryOf acc name"
  by (simp_all add: entryOf_def)

lemma entryOf_step:
  "name \<notin> set objectPrototypeKeys \<Longrightarrow> entryOf (step acc t) name = stepEntry name (entryOf acc name) t"
  by (cases "kindOf t") (auto simp: step_kind stepEntry_def entryOf_update)

lemma entryOf_foldl:
  "name \<notin> set objectPrototypeKeys \<Longrightarrow>
   entryOf (foldl step acc ts) name = foldl (stepEntry name) (entryOf acc name) ts"
  by (induction ts arbitrary: acc) (simp_all add: entryOf_step)

lemma foldl_stepEntry:
  "foldl (stepEntry name) e ts =
     \<lparr>boughtQuantity = foldl add (boughtQuantity e) (quantities (ofTicker name (ofKind Buy ts))),
      soldQuantity = foldl add (soldQuantity e) (quantities (ofTicker name (ofKind Sell ts))),
      totalBoughtAmount = foldl add (totalBoughtAmount e) (amounts (ofTicker name (ofKind Buy ts)))\<rparr>"
  by (induction ts arbitrary: e)
     (auto simp: stepEntry_def quantities_def amounts_def ofTicker_def ofKind_def)

lemma totals_step:
  "totalInjected (step acc t) = (if kindOf t = CashTopUp then add (totalInjected acc) (totalAmount t) else totalInjected acc)"
  "totalDividends (step acc t) = (if kindOf t = Dividend then add (totalDividends acc) (totalAmount t) else totalDividends acc)"
  "totalFees (step acc t) = (if kindOf t = Fee then add (totalFees acc) (Math_abs (totalAmount t)) else totalFees acc)"
  "totalSold (step acc t) = (if kindOf t = Sell then add (totalSold acc) (totalAmount t) else totalSold acc)"
  by (cases "kindOf t"; simp add: step_kind)+

lemma totalInjected_foldl:
  "totalInjected (foldl step acc ts) = foldl add (totalInjected acc) (amounts (ofKind CashTopUp ts))"
  by (induction ts arbitrary: acc) (simp_all add: totals_step amounts_def ofKind_def)

lemma totalDividends_foldl:
  "totalDividends (foldl step acc ts) = foldl add (totalDividends acc) (amounts (ofKind Dividend ts))"
  by (induction ts arbitrary: acc) (simp_all add: totals_step amounts_def ofKind_def)

lemma totalSold_foldl:
  "totalSold (foldl step acc ts) = foldl add (totalSold acc) (amounts (ofKind Sell ts))"
  by (induction ts arbitrary: acc) (simp_all add: totals_step amounts_def ofKind_def)

lemma totalFees_foldl:
  "totalFees (foldl step acc ts) = foldl add (totalFees acc) (map Math_abs (amounts (ofKind Fee ts)))"
  by (induction ts arbitrary: acc) (simp_all add: totals_step amounts_def ofKind_def)

lemma wellFormed_step: "wellFormed acc \<Longrightarrow> wellFormed (step acc t)"
  by (cases "kindOf t") (auto simp: step_kind wellFormed_def distinct_update update_conv')

lemma wellFormed_foldl: "wellFormed acc \<Longrightarrow> wellFormed (foldl step acc ts)"
  by (induction ts arbitrary: acc) (simp_all add: wellFormed_step)

lemma wellFormed_initial: "wellFormed initial"
  by (simp add: wellFormed_def initial_def)

lemma set_ownEntries: "set (ownEntries obj) = set obj"
  by (auto simp: ownEntries_def)

lemma distinct_ownEntries:
  assumes "distinct (map fst obj)"
  shows "distinct (map fst (ownEntries obj))"
proof -
  have "distinct obj" and "inj_on fst (set obj)"
    using assms by (simp_all add: distinct_map)
  then have "distinct (ownEntries obj)"
    by (auto simp: ownEntries_def)
  then show ?thesis
    using \<open>inj_on fst (set obj)\<close> by (simp add: distinct_map set_ownEntries)
qed

lemma map_of_ownEntries:
  "distinct (map fst obj) \<Longrightarrow> map_of (ownEntries obj) = map_of obj"
  using distinct_ownEntries [of obj] set_ownEntries [of obj]
  by (simp add: map_of_inject_set)

lemma collect_None: "name \<notin> fst ` set entries \<Longrightarrow> map_of (collect entries) name = None"
  by (induction entries) (auto simp: Let_def)

lemma map_of_collect:
  "distinct (map fst entries) \<Longrightarrow>
   map_of (collect entries) name =
     (case map_of entries name of None \<Rightarrow> None | Some e \<Rightarrow> positionOf e)"
  by (induction entries) (auto simp: Let_def positionOf_def collect_None)

lemma positionOf_newStats: "positionOf newStats = None"
  by (simp add: positionOf_def newStats_def sub_def roundRat_def)

lemma positions_lookup:
  assumes "wellFormed acc"
  shows "map_of (collect (ownEntries (tickerStats acc))) name = positionOf (entryOf acc name)"
  using assms
  by (simp add: map_of_collect distinct_ownEntries map_of_ownEntries wellFormed_def
      entryOf_def positionOf_newStats split: option.splits)

lemma entryOf_proto:
  "wellFormed acc \<Longrightarrow> name \<in> set objectPrototypeKeys \<Longrightarrow> entryOf acc name = newStats"
  by (simp add: wellFormed_def entryOf_def)

lemma entryOf_initial: "entryOf initial name = newStats"
  by (simp add: entryOf_def initial_def)

lemma positions_calculate:
  "map_of (positions (calculateAveragePrices ts)) name =
     (if name \<in> set objectPrototypeKeys then None else positionOf (statsOf name ts))"
proof -
  have wf: "wellFormed (foldl step initial ts)"
    by (simp add: wellFormed_foldl wellFormed_initial)
  show ?thesis
  proof (cases "name \<in> set objectPrototypeKeys")
    case True
    then show ?thesis
      using wf by (simp add: calculateAveragePrices_def Let_def positions_lookup entryOf_proto positionOf_newStats)
  next
    case False
    then show ?thesis
      using wf
      by (simp add: calculateAveragePrices_def Let_def positions_lookup entryOf_foldl
          foldl_stepEntry entryOf_initial newStats_def statsOf_def sumOf_def)
  qed
qed

lemma totals_calculate:
  "totalInjected (calculateAveragePrices ts) = sumOf (amounts (ofKind CashTopUp ts))"
  "totalSold (calculateAveragePrices ts) = sumOf (amounts (ofKind Sell ts))"
  "totalDividends (calculateAveragePrices ts) = sumOf (amounts (ofKind Dividend ts))"
  "totalFees (calculateAveragePrices ts) = sumOf (map Math_abs (amounts (ofKind Fee ts)))"
  by (simp_all add: calculateAveragePrices_def Let_def totalInjected_foldl totalSold_foldl
      totalDividends_foldl totalFees_foldl initial_def sumOf_def)

section \<open>Facts about the extractor and the program\<close>

lemma step_totalInjected:
  "step (acc\<lparr>totalInjected := x\<rparr>) t =
     (step acc t)\<lparr>totalInjected := (if kindOf t = CashTopUp then add x (totalAmount t) else x)\<rparr>"
  by (cases "kindOf t") (simp_all add: step_kind entryOf_def)

lemma foldl_step_totalInjected:
  "foldl step (acc\<lparr>totalInjected := x\<rparr>) ts =
     (foldl step acc ts)\<lparr>totalInjected := foldl add x (amounts (ofKind CashTopUp ts))\<rparr>"
  by (induction ts arbitrary: acc x) (simp_all add: step_totalInjected amounts_def ofKind_def)

lemma calculate_skip_CashTopUp:
  assumes "kindOf t = CashTopUp"
  shows "positions (calculateAveragePrices (before @ t # after)) = positions (calculateAveragePrices (before @ after))"
    and "totalSold (calculateAveragePrices (before @ t # after)) = totalSold (calculateAveragePrices (before @ after))"
    and "totalDividends (calculateAveragePrices (before @ t # after)) = totalDividends (calculateAveragePrices (before @ after))"
    and "totalFees (calculateAveragePrices (before @ t # after)) = totalFees (calculateAveragePrices (before @ after))"
  using assms
  by (simp_all add: calculateAveragePrices_def Let_def step_CashTopUp foldl_step_totalInjected)

lemma kindOf_CashTopUp: "kindOf t = CashTopUp \<longleftrightarrow> ticker t = Val (str ''EUR'') \<and> type t = str ''BUY''"
  by (simp add: kindOf_def)

lemma gt_zero_sub_zero: "gt_zero (sub (Fin 0) s) \<Longrightarrow> lt_zero s"
  by (cases s) (auto simp: sub_def dest: gt_zero_roundRat split: if_splits)

lemma no_Buy_of_EUR: "ofTicker (str ''EUR'') (ofKind Buy ts) = []"
proof -
  have "\<not> (kindOf t = Buy \<and> propertyKey (ticker t) = str ''EUR'')" for t
    by (cases "ticker t") (auto simp: kindOf_def str_def)
  then show ?thesis
    by (simp add: ofTicker_def ofKind_def)
qed

lemma sumOf_Nil: "sumOf [] = Fin 0"
  by (simp add: sumOf_def)

lemma not_lt_zero_foldl:
  "list_all (\<lambda>x. \<not> lt_zero x) xs \<Longrightarrow> \<not> lt_zero a \<Longrightarrow> \<not> lt_zero (foldl add a xs)"
  by (induction xs arbitrary: a) (simp_all add: not_lt_zero_add)

lemma not_lt_zero_sumOf: "list_all (\<lambda>x. \<not> lt_zero x) xs \<Longrightarrow> \<not> lt_zero (sumOf xs)"
  by (simp add: sumOf_def not_lt_zero_foldl)





lemma position_not_inherited:
  assumes "name \<in> fst ` set (positions (calculateAveragePrices ts))"
  shows "name \<notin> set objectPrototypeKeys"
proof -
  have "map_of (positions (calculateAveragePrices ts)) name \<noteq> None"
    using assms by (simp add: map_of_eq_None_iff)
  then show ?thesis
    by (simp add: positions_calculate split: if_splits)
qed


lemma ge_zero_add:
  "less_eq_num (Fin 0) a \<Longrightarrow> less_eq_num (Fin 0) b \<Longrightarrow> less_eq_num (Fin 0) (add a b)"
proof (cases a; cases b)
  fix x y
  assume a: "a = Fin x" and b: "b = Fin y" and "less_eq_num (Fin 0) a" "less_eq_num (Fin 0) b"
  then have "0 \<le> x + y" by simp
  then show "less_eq_num (Fin 0) (add a b)"
    using roundPos_cases [of "x + y"] a b by (auto simp: roundRat_def)
qed simp_all

lemma ge_zero_abs: "a \<noteq> NaN \<Longrightarrow> less_eq_num (Fin 0) (Math_abs a)"
  by (cases a) (simp_all add: Math_abs_def)

lemma ge_zero_foldl:
  "list_all (\<lambda>x. less_eq_num (Fin 0) x) xs \<Longrightarrow> less_eq_num (Fin 0) a
   \<Longrightarrow> less_eq_num (Fin 0) (foldl add a xs)"
  by (induction xs arbitrary: a) (simp_all add: ge_zero_add)

lemma ge_zero_sumOf: "list_all (\<lambda>x. less_eq_num (Fin 0) x) xs \<Longrightarrow> less_eq_num (Fin 0) (sumOf xs)"
  by (simp add: sumOf_def ge_zero_foldl)

lemma list_all_amounts:
  "list_all (\<lambda>t. P (totalAmount t)) ts \<Longrightarrow> list_all P (amounts ts)"
  by (simp add: amounts_def list_all_iff)

lemma list_all_abs_amounts:
  "list_all (\<lambda>t. totalAmount t \<noteq> NaN) ts
   \<Longrightarrow> list_all (\<lambda>x. less_eq_num (Fin 0) x) (map Math_abs (amounts ts))"
  by (simp add: amounts_def list_all_iff ge_zero_abs)

lemma ofKind_Sell: "ofKind Sell ts = ofType (str ''SELL'') ts"
  by (auto simp: ofKind_def ofType_def kindOf_def intro: filter_cong)

lemma ofTicker_ofKind_Buy:
  assumes "name \<noteq> str ''EUR''"
  shows "ofTicker name (ofKind Buy ts) = ofTicker name (ofType (str ''BUY'') ts)"
proof -
  have "(kindOf t = Buy \<and> propertyKey (ticker t) = name)
        \<longleftrightarrow> (type t = str ''BUY'' \<and> propertyKey (ticker t) = name)" for t
    using assms by (cases "ticker t") (auto simp: kindOf_def)
  then show ?thesis
    by (simp add: ofTicker_def ofKind_def ofType_def conj_commute)
qed

lemma totalInjected_insert:
  assumes "kindOf t = CashTopUp"
  shows "totalInjected (calculateAveragePrices (before @ t # after))
         = foldl add (add (totalInjected (calculateAveragePrices before)) (totalAmount t))
             (amounts (ofKind CashTopUp after))"
  using assms by (simp add: totals_calculate sumOf_def amounts_def ofKind_def)




text \<open>
  A row whose ticker is \<^verbatim>\<open>__proto__\<close> leaves a property on \<^verbatim>\<open>Object.prototype\<close>, and the
  report loop stops on it.
\<close>

lemma main_protoRow:
  "main exampleEnv (Some (exampleFiles protoRowCsv)) = ReportAborted [] TypeError"
  by code_simp

section \<open>The claims\<close>

text \<open>
  Claim C1. On the scenario of the specification (a Buy of 10 TICK_A at 5 for 50, a Sell
  of 4 TICK_A for 24, a Dividend of 1 on TICK_A and a cash top-up of 100) the
  aggregation returns exactly one position, TICK_A with remaining quantity 6 and average
  price 5, and the totals injected 100, sold 24, dividends 1, fees 0.
\<close>

theorem C1_scenario:
  "calculateAveragePrices
     [\<lparr>ticker = Val (str ''TICK_A''), type = str ''BUY'', quantity = Val (Fin 10),
       pricePerShare = Val (Fin 5), totalAmount = Fin 50\<rparr>,
      \<lparr>ticker = Val (str ''TICK_A''), type = str ''SELL'', quantity = Val (Fin 4),
       pricePerShare = price, totalAmount = Fin 24\<rparr>,
      \<lparr>ticker = Val (str ''TICK_A''), type = str ''DIVIDEND'', quantity = Undefined,
       pricePerShare = Undefined, totalAmount = Fin 1\<rparr>,
      \<lparr>ticker = Val (str ''EUR''), type = str ''BUY'', quantity = Val (Fin 100),
       pricePerShare = Val (Fin 1), totalAmount = Fin 100\<rparr>] =
     \<lparr>totalInjected = Fin 100, totalSold = Fin 24, totalDividends = Fin 1, totalFees = Fin 0,
      positions = [(str ''TICK_A'', \<lparr>averagePrice = Fin 5, totalQuantity = Fin 6\<rparr>)]\<rparr>"
  by code_simp

text \<open>
  Claim C2, as the code has it. For every ticker other than \<^verbatim>\<open>EUR\<close> that is emitted in
  positions, the average price is the sum of the total amounts of the records of type
  \<^verbatim>\<open>BUY\<close> with that ticker divided by the sum of their quantities, and the remaining
  quantity is that sum of quantities minus the sum of the quantities of the records of
  type \<^verbatim>\<open>SELL\<close> with that ticker. For \<^verbatim>\<open>EUR\<close> the records of type \<^verbatim>\<open>BUY\<close> are taken as
  cash top-ups and are not counted: when \<^verbatim>\<open>EUR\<close> is emitted its average price is NaN
  (zero by zero) and its remaining quantity is zero minus the sold quantity. For every
  ticker, Sell records never change the average price: any other sequence with the same
  records of type \<^verbatim>\<open>BUY\<close> for the ticker gives the same average price whenever it emits
  the ticker.
\<close>

theorem C2_average_price:
  assumes "map_of (positions (calculateAveragePrices ts)) name = Some p"
  shows "(name \<noteq> str ''EUR'' \<longrightarrow>
            averagePrice p =
              divide_num (sumOf (amounts (ofTicker name (ofType (str ''BUY'') ts))))
                         (sumOf (quantities (ofTicker name (ofType (str ''BUY'') ts))))
            \<and> totalQuantity p =
              sub (sumOf (quantities (ofTicker name (ofType (str ''BUY'') ts))))
                  (sumOf (quantities (ofTicker name (ofType (str ''SELL'') ts)))))
         \<and> (name = str ''EUR'' \<longrightarrow>
              averagePrice p = NaN
              \<and> totalQuantity p =
                sub (Fin 0) (sumOf (quantities (ofTicker name (ofType (str ''SELL'') ts)))))
         \<and> (\<forall>ts' p'. ofTicker name (ofType (str ''BUY'') ts') = ofTicker name (ofType (str ''BUY'') ts)
               \<and> map_of (positions (calculateAveragePrices ts')) name = Some p'
               \<longrightarrow> averagePrice p' = averagePrice p)"
proof -
  have emitted: "positionOf (statsOf name ts) = Some p" and own: "name \<notin> set objectPrototypeKeys"
    using assms by (simp_all add: positions_calculate split: if_splits)
  have avg: "averagePrice p =
           divide_num (sumOf (amounts (ofTicker name (ofKind Buy ts))))
                      (sumOf (quantities (ofTicker name (ofKind Buy ts))))"
    and qty: "totalQuantity p =
           sub (sumOf (quantities (ofTicker name (ofKind Buy ts))))
               (sumOf (quantities (ofTicker name (ofKind Sell ts))))"
    using emitted by (auto simp: positionOf_def statsOf_def split: if_splits)
  have other: "averagePrice p' =
           divide_num (sumOf (amounts (ofTicker name (ofKind Buy ts'))))
                      (sumOf (quantities (ofTicker name (ofKind Buy ts'))))"
    if "map_of (positions (calculateAveragePrices ts')) name = Some p'" for ts' p'
  proof -
    have "positionOf (statsOf name ts') = Some p'"
      using that own by (simp add: positions_calculate)
    then show ?thesis
      by (auto simp: positionOf_def statsOf_def split: if_splits)
  qed
  show ?thesis
  proof (cases "name = str ''EUR''")
    case True
    have nan: "divide_num (Fin 0) (Fin 0) = NaN"
      by (simp add: divide_num_def Math_abs_def)
    have pNaN: "averagePrice p = NaN"
      and pQuantity: "totalQuantity p
        = sub (Fin 0) (sumOf (quantities (ofTicker name (ofType (str ''SELL'') ts))))"
      using avg qty True
      by (simp_all add: no_Buy_of_EUR amounts_def quantities_def sumOf_Nil nan ofKind_Sell)
    have "averagePrice p' = averagePrice p"
      if "map_of (positions (calculateAveragePrices ts')) name = Some p'" for ts' p'
      using other [OF that] True pNaN
      by (simp add: no_Buy_of_EUR amounts_def quantities_def sumOf_Nil nan)
    then have "\<forall>ts' p'. ofTicker name (ofType (str ''BUY'') ts') = ofTicker name (ofType (str ''BUY'') ts)
               \<and> map_of (positions (calculateAveragePrices ts')) name = Some p'
               \<longrightarrow> averagePrice p' = averagePrice p"
      by blast
    then show ?thesis
      using True pNaN pQuantity by blast
  next
    case False
    have "averagePrice p' = averagePrice p"
      if "ofTicker name (ofType (str ''BUY'') ts') = ofTicker name (ofType (str ''BUY'') ts)"
        and "map_of (positions (calculateAveragePrices ts')) name = Some p'" for ts' p'
      using other [OF that(2)] that(1) avg False by (simp add: ofTicker_ofKind_Buy)
    then have "\<forall>ts' p'. ofTicker name (ofType (str ''BUY'') ts') = ofTicker name (ofType (str ''BUY'') ts)
               \<and> map_of (positions (calculateAveragePrices ts')) name = Some p'
               \<longrightarrow> averagePrice p' = averagePrice p"
      by blast
    moreover have "averagePrice p =
              divide_num (sumOf (amounts (ofTicker name (ofType (str ''BUY'') ts))))
                         (sumOf (quantities (ofTicker name (ofType (str ''BUY'') ts))))"
      and "totalQuantity p =
              sub (sumOf (quantities (ofTicker name (ofType (str ''BUY'') ts))))
                  (sumOf (quantities (ofTicker name (ofType (str ''SELL'') ts))))"
      using avg qty False by (simp_all add: ofTicker_ofKind_Buy ofKind_Sell)
    ultimately show ?thesis
      using False by blast
  qed
qed

theorem C2_average_price_witness:
  "map_of (positions (calculateAveragePrices scenario)) (str ''TICK_A'')
     = Some \<lparr>averagePrice = Fin 5, totalQuantity = Fin 6\<rparr>
   \<and> str ''TICK_A'' \<noteq> str ''EUR''
   \<and> Fin 5 = divide_num (sumOf (amounts (ofTicker (str ''TICK_A'') (ofType (str ''BUY'') scenario))))
                        (sumOf (quantities (ofTicker (str ''TICK_A'') (ofType (str ''BUY'') scenario))))
   \<and> Fin 6 = sub (sumOf (quantities (ofTicker (str ''TICK_A'') (ofType (str ''BUY'') scenario))))
                 (sumOf (quantities (ofTicker (str ''TICK_A'') (ofType (str ''SELL'') scenario))))
   \<and> ofTicker (str ''TICK_A'') (ofType (str ''BUY'') [buyA, buyB])
       = ofTicker (str ''TICK_A'') (ofType (str ''BUY'') scenario)
   \<and> map_of (positions (calculateAveragePrices [buyA, buyB])) (str ''TICK_A'')
       = Some \<lparr>averagePrice = Fin 5, totalQuantity = Fin 10\<rparr>
   \<and> map_of (positions (calculateAveragePrices [cashTopUp100, sellEurNegative])) (str ''EUR'')
       = Some \<lparr>averagePrice = NaN, totalQuantity = Fin 1\<rparr>
   \<and> Fin 1 = sub (Fin 0) (sumOf (quantities
                 (ofTicker (str ''EUR'') (ofType (str ''SELL'') [cashTopUp100, sellEurNegative]))))"
proof -
  have h: "map_of (positions (calculateAveragePrices scenario)) (str ''TICK_A'')
     = Some \<lparr>averagePrice = Fin 5, totalQuantity = Fin 6\<rparr>"
    by code_simp
  have ne: "str ''TICK_A'' \<noteq> str ''EUR''"
    by (simp add: str_def)
  have same: "ofTicker (str ''TICK_A'') (ofType (str ''BUY'') [buyA, buyB])
       = ofTicker (str ''TICK_A'') (ofType (str ''BUY'') scenario)"
    by code_simp
  have other: "map_of (positions (calculateAveragePrices [buyA, buyB])) (str ''TICK_A'')
       = Some \<lparr>averagePrice = Fin 5, totalQuantity = Fin 10\<rparr>"
    by code_simp
  have eur: "map_of (positions (calculateAveragePrices [cashTopUp100, sellEurNegative])) (str ''EUR'')
       = Some \<lparr>averagePrice = NaN, totalQuantity = Fin 1\<rparr>"
    by code_simp
  show ?thesis
    using h ne same other eur C2_average_price [OF h] C2_average_price [OF eur] by simp
qed

text \<open>
  The claim as stated covers every emitted ticker. After a BUY of 100 \<^verbatim>\<open>EUR\<close> for 100
  and a SELL of -1 \<^verbatim>\<open>EUR\<close>, the ticker \<^verbatim>\<open>EUR\<close> is emitted with average price NaN and
  quantity 1, while the sums over its one record of type \<^verbatim>\<open>BUY\<close> give 100 / 100 = 1 and
  100 - (-1) = 101.
\<close>

theorem C2_counterexample:
  "positions (calculateAveragePrices [cashTopUp100, sellEurNegative])
     = [(str ''EUR'', \<lparr>averagePrice = NaN, totalQuantity = Fin 1\<rparr>)]
   \<and> ofTicker (str ''EUR'') (ofType (str ''BUY'') [cashTopUp100, sellEurNegative]) = [cashTopUp100]
   \<and> divide_num (sumOf (amounts [cashTopUp100])) (sumOf (quantities [cashTopUp100])) = Fin 1
   \<and> sub (sumOf (quantities [cashTopUp100])) (sumOf (quantities [sellEurNegative])) = Fin 101"
  by code_simp

text \<open>
  Claim C3, as the code has it. \<open>calculateAveragePrices\<close> has no error result: it returns
  a summary for every sequence of records. In that summary a ticker whose cumulative
  bought quantity is zero and whose cumulative sold quantity is not negative is left out
  of positions, so no average price is computed for it, and its Sell amounts are in
  \<open>totalSold\<close> all the same.
\<close>

theorem C3_zero_bought:
  "sumOf (quantities (ofTicker name (ofKind Buy ts))) = Fin 0
   \<and> \<not> lt_zero (sumOf (quantities (ofTicker name (ofKind Sell ts))))
   \<longrightarrow> map_of (positions (calculateAveragePrices ts)) name = None
       \<and> totalSold (calculateAveragePrices ts) = sumOf (amounts (ofKind Sell ts))"
  by (auto simp: positions_calculate positionOf_def statsOf_def totals_calculate
      dest: gt_zero_sub_zero)

theorem C3_zero_bought_witness:
  "sumOf (quantities (ofTicker (str ''TICK_A'') (ofKind Buy [sellA]))) = Fin 0
   \<and> \<not> lt_zero (sumOf (quantities (ofTicker (str ''TICK_A'') (ofKind Sell [sellA]))))
   \<and> map_of (positions (calculateAveragePrices [sellA])) (str ''TICK_A'') = None
   \<and> totalSold (calculateAveragePrices [sellA]) = sumOf (amounts (ofKind Sell [sellA]))"
proof -
  have h: "sumOf (quantities (ofTicker (str ''TICK_A'') (ofKind Buy [sellA]))) = Fin 0
   \<and> \<not> lt_zero (sumOf (quantities (ofTicker (str ''TICK_A'') (ofKind Sell [sellA]))))"
    by code_simp
  show ?thesis
    using h C3_zero_bought [of "str ''TICK_A''" "[sellA]"] by blast
qed

text \<open>
  The claim as stated asks for a data error. A statement with one Sell and no Buy goes
  through the extractor and the aggregator and reaches the report, with no position.
\<close>

theorem C3_counterexample:
  "parseCSV sellOnlyCsv = Inr [sellA]
   \<and> main exampleEnv (Some (exampleFiles sellOnlyCsv)) =
       Report \<lparr>totalInjected = Fin 0, totalSold = Fin 24, totalDividends = Fin 0, totalFees = Fin 0,
               positions = []\<rparr>"
  by code_simp






text \<open>
  Claim C6. Every ticker present in positions has a remaining quantity strictly greater
  than zero, and a ticker whose cumulative sold quantity equals or exceeds its cumulative
  bought quantity is absent from positions.
\<close>

theorem C6_remaining_positive:
  "(map_of (positions (calculateAveragePrices ts)) name = Some p \<longrightarrow> gt_zero (totalQuantity p))
   \<and> (less_eq_num (sumOf (quantities (ofTicker name (ofKind Buy ts))))
                   (sumOf (quantities (ofTicker name (ofKind Sell ts))))
        \<longrightarrow> map_of (positions (calculateAveragePrices ts)) name = None)"
  by (auto simp: positions_calculate positionOf_def statsOf_def dest: not_gt_zero_sub
      split: if_splits)

theorem C6_remaining_positive_witness:
  "map_of (positions (calculateAveragePrices scenario)) (str ''TICK_A'')
     = Some \<lparr>averagePrice = Fin 5, totalQuantity = Fin 6\<rparr>
   \<and> gt_zero (totalQuantity \<lparr>averagePrice = Fin 5, totalQuantity = Fin 6\<rparr>)
   \<and> less_eq_num (sumOf (quantities (ofTicker (str ''TICK_A'') (ofKind Buy [buyA, sellAllA]))))
                  (sumOf (quantities (ofTicker (str ''TICK_A'') (ofKind Sell [buyA, sellAllA]))))
   \<and> map_of (positions (calculateAveragePrices [buyA, sellAllA])) (str ''TICK_A'') = None"
proof -
  have h1: "map_of (positions (calculateAveragePrices scenario)) (str ''TICK_A'')
     = Some \<lparr>averagePrice = Fin 5, totalQuantity = Fin 6\<rparr>"
    by code_simp
  have h2: "less_eq_num (sumOf (quantities (ofTicker (str ''TICK_A'') (ofKind Buy [buyA, sellAllA]))))
                  (sumOf (quantities (ofTicker (str ''TICK_A'') (ofKind Sell [buyA, sellAllA]))))"
    by code_simp
  show ?thesis
    using h1 h2
      C6_remaining_positive [of scenario "str ''TICK_A''" "\<lparr>averagePrice = Fin 5, totalQuantity = Fin 6\<rparr>"]
      C6_remaining_positive [of "[buyA, sellAllA]" "str ''TICK_A''"]
    by blast
qed

text \<open>
  Claim C7, as the code has it. Two sequences give the same positions and the same four
  totals when, for each accumulator, the records added to it come in the same order: the
  cash top-ups, the dividends, the fees, the Sell records, and for each ticker its Buy
  records. Records that feed different accumulators may be interleaved in any way.
\<close>

theorem C7_order_per_accumulator:
  assumes "ofKind CashTopUp xs = ofKind CashTopUp ys"
    and "ofKind Dividend xs = ofKind Dividend ys"
    and "ofKind Fee xs = ofKind Fee ys"
    and "ofKind Sell xs = ofKind Sell ys"
    and "\<forall>name. ofTicker name (ofKind Buy xs) = ofTicker name (ofKind Buy ys)"
  shows "map_of (positions (calculateAveragePrices xs)) = map_of (positions (calculateAveragePrices ys))
         \<and> totalInjected (calculateAveragePrices xs) = totalInjected (calculateAveragePrices ys)
         \<and> totalSold (calculateAveragePrices xs) = totalSold (calculateAveragePrices ys)
         \<and> totalDividends (calculateAveragePrices xs) = totalDividends (calculateAveragePrices ys)
         \<and> totalFees (calculateAveragePrices xs) = totalFees (calculateAveragePrices ys)"
proof -
  have "statsOf name xs = statsOf name ys" for name
    using assms(4,5) by (simp add: statsOf_def)
  then have "map_of (positions (calculateAveragePrices xs)) name
             = map_of (positions (calculateAveragePrices ys)) name" for name
    by (simp add: positions_calculate)
  then have "map_of (positions (calculateAveragePrices xs)) = map_of (positions (calculateAveragePrices ys))"
    by (rule ext)
  then show ?thesis
    using assms(1-4) by (simp add: totals_calculate)
qed

theorem C7_order_per_accumulator_witness:
  "ofKind CashTopUp [buyA, buyB, sellA, cashTopUp100] = ofKind CashTopUp [cashTopUp100, buyB, sellA, buyA]
   \<and> ofKind Dividend [buyA, buyB, sellA, cashTopUp100] = ofKind Dividend [cashTopUp100, buyB, sellA, buyA]
   \<and> ofKind Fee [buyA, buyB, sellA, cashTopUp100] = ofKind Fee [cashTopUp100, buyB, sellA, buyA]
   \<and> ofKind Sell [buyA, buyB, sellA, cashTopUp100] = ofKind Sell [cashTopUp100, buyB, sellA, buyA]
   \<and> (\<forall>name. ofTicker name (ofKind Buy [buyA, buyB, sellA, cashTopUp100])
              = ofTicker name (ofKind Buy [cashTopUp100, buyB, sellA, buyA]))
   \<and> map_of (positions (calculateAveragePrices [buyA, buyB, sellA, cashTopUp100]))
       = map_of (positions (calculateAveragePrices [cashTopUp100, buyB, sellA, buyA]))
   \<and> totalInjected (calculateAveragePrices [buyA, buyB, sellA, cashTopUp100])
       = totalInjected (calculateAveragePrices [cashTopUp100, buyB, sellA, buyA])
   \<and> totalSold (calculateAveragePrices [buyA, buyB, sellA, cashTopUp100])
       = totalSold (calculateAveragePrices [cashTopUp100, buyB, sellA, buyA])"
proof -
  have k: "kindOf buyA = Buy" "kindOf buyB = Buy" "kindOf sellA = Sell" "kindOf cashTopUp100 = CashTopUp"
    by code_simp+
  have n: "propertyKey (ticker buyA) = str ''TICK_A''" "propertyKey (ticker buyB) = str ''TICK_B''"
    "str ''TICK_A'' \<noteq> str ''TICK_B''"
    by (simp_all add: buyA_def buyB_def str_def)
  have h1: "ofKind CashTopUp [buyA, buyB, sellA, cashTopUp100] = ofKind CashTopUp [cashTopUp100, buyB, sellA, buyA]"
    and h2: "ofKind Dividend [buyA, buyB, sellA, cashTopUp100] = ofKind Dividend [cashTopUp100, buyB, sellA, buyA]"
    and h3: "ofKind Fee [buyA, buyB, sellA, cashTopUp100] = ofKind Fee [cashTopUp100, buyB, sellA, buyA]"
    and h4: "ofKind Sell [buyA, buyB, sellA, cashTopUp100] = ofKind Sell [cashTopUp100, buyB, sellA, buyA]"
    by (simp_all add: ofKind_def k)
  have h5: "\<forall>name. ofTicker name (ofKind Buy [buyA, buyB, sellA, cashTopUp100])
              = ofTicker name (ofKind Buy [cashTopUp100, buyB, sellA, buyA])"
    using n by (auto simp: ofKind_def ofTicker_def k)
  show ?thesis
    using h1 h2 h3 h4 h5 C7_order_per_accumulator [OF h1 h2 h3 h4 h5] by simp
qed

text \<open>
  The claim as stated allows every permutation. Floating-point addition is not
  associative: three purchases of 0.1, 0.2 and 0.3 shares of one ticker give a quantity of
  0.6000000000000001 and an average price of 4.999999999999999 in that order, and 0.6
  and 5 in the reverse order.
\<close>

theorem C7_counterexample:
  "positions (calculateAveragePrices [buyTenth, buyTwoTenths, buyThreeTenths])
     = [(str ''TICK_A'', \<lparr>averagePrice = parseFloat (str ''4.999999999999999''),
                          totalQuantity = parseFloat (str ''0.6000000000000001'')\<rparr>)]
   \<and> positions (calculateAveragePrices [buyThreeTenths, buyTwoTenths, buyTenth])
     = [(str ''TICK_A'', \<lparr>averagePrice = Fin 5, totalQuantity = parseFloat (str ''0.6'')\<rparr>)]
   \<and> parseFloat (str ''0.6000000000000001'') \<noteq> parseFloat (str ''0.6'')"
  by code_simp

text \<open>
  Claim C8. When the statement parses and some ticker of the computed positions has no
  entry in the identifier map, the program writes the heading and one line for each
  ticker of positions whose identifier is missing or empty, all of them, and exits with
  status 1 before any line of the report.
\<close>

theorem C8_missing_mappings:
  assumes "loadTickerToIsin env \<noteq> []"
    and "find (\<lambda>(file, content). endsWith file (str ''.csv'')) files = Some (csvFile, content)"
    and "parseCSV content = Inr transactions"
    and "\<exists>name \<in> fst ` set (positions (calculateAveragePrices transactions)).
           map_of (loadTickerToIsin env) name = None"
  shows "\<exists>missing. main env (Some files) = Exit1 (MissingIsinMappings # map MissingTicker missing)
           \<and> (\<forall>name. name \<in> set missing \<longleftrightarrow>
                 name \<in> fst ` set (positions (calculateAveragePrices transactions))
                 \<and> (map_of (loadTickerToIsin env) name = None
                     \<or> map_of (loadTickerToIsin env) name = Some []))"
proof -
  let ?result = "calculateAveragePrices transactions"
  let ?missing = "filter (\<lambda>name. \<not> hasIsin (loadTickerToIsin env) name)
                    (map fst (ownEntries (positions ?result)))"
  have member: "name \<in> set ?missing \<longleftrightarrow>
      name \<in> fst ` set (positions ?result)
      \<and> (map_of (loadTickerToIsin env) name = None \<or> map_of (loadTickerToIsin env) name = Some [])"
    for name
    using position_not_inherited [of name transactions]
    by (auto simp: set_ownEntries hasIsin_def split: option.splits)
  then have "?missing \<noteq> []"
    using assms(4) by (metis empty_iff empty_set)
  then have "main env (Some files) = Exit1 (MissingIsinMappings # map MissingTicker ?missing)"
    using assms(1-3) by (simp add: main_def report_def Let_def)
  then show ?thesis
    using member by blast
qed

theorem C8_missing_mappings_witness:
  "loadTickerToIsin exampleEnv \<noteq> []
   \<and> find (\<lambda>(file, content). endsWith file (str ''.csv'')) (exampleFiles threeTickersCsv)
       = Some (str ''export.csv'', threeTickersCsv)
   \<and> parseCSV threeTickersCsv = Inr [buyB, buyA,
        \<lparr>ticker = Val (str ''TICK_C''), type = str ''BUY'', quantity = Val (Fin 1),
         pricePerShare = Val (Fin 3), totalAmount = Fin 3\<rparr>]
   \<and> map_of (loadTickerToIsin exampleEnv) (str ''TICK_B'') = None
   \<and> map_of (loadTickerToIsin exampleEnv) (str ''TICK_C'') = None
   \<and> main exampleEnv (Some (exampleFiles threeTickersCsv))
       = Exit1 [MissingIsinMappings, MissingTicker (str ''TICK_B''), MissingTicker (str ''TICK_C'')]
   \<and> (\<exists>missing. main exampleEnv (Some (exampleFiles threeTickersCsv))
         = Exit1 (MissingIsinMappings # map MissingTicker missing)
         \<and> str ''TICK_B'' \<in> set missing \<and> str ''TICK_C'' \<in> set missing)"
proof -
  let ?ts = "[buyB, buyA,
        \<lparr>ticker = Val (str ''TICK_C''), type = str ''BUY'', quantity = Val (Fin 1),
         pricePerShare = Val (Fin 3), totalAmount = Fin 3\<rparr>]"
  have h1: "loadTickerToIsin exampleEnv \<noteq> []"
    by code_simp
  have h2: "find (\<lambda>(file, content). endsWith file (str ''.csv'')) (exampleFiles threeTickersCsv)
       = Some (str ''export.csv'', threeTickersCsv)"
    by code_simp
  have h3: "parseCSV threeTickersCsv = Inr ?ts"
    by code_simp
  have keys: "fst ` set (positions (calculateAveragePrices ?ts))
              = {str ''TICK_B'', str ''TICK_A'', str ''TICK_C''}"
    by code_simp
  have gaps: "map_of (loadTickerToIsin exampleEnv) (str ''TICK_B'') = None"
    "map_of (loadTickerToIsin exampleEnv) (str ''TICK_C'') = None"
    by code_simp+
  have h4: "\<exists>name \<in> fst ` set (positions (calculateAveragePrices ?ts)).
           map_of (loadTickerToIsin exampleEnv) name = None"
    using keys gaps by blast
  have run: "main exampleEnv (Some (exampleFiles threeTickersCsv))
       = Exit1 [MissingIsinMappings, MissingTicker (str ''TICK_B''), MissingTicker (str ''TICK_C'')]"
    by code_simp
  have "\<exists>missing. main exampleEnv (Some (exampleFiles threeTickersCsv))
         = Exit1 (MissingIsinMappings # map MissingTicker missing)
         \<and> str ''TICK_B'' \<in> set missing \<and> str ''TICK_C'' \<in> set missing"
    using C8_missing_mappings [OF h1 h2 h3 h4] keys gaps by blast
  then show ?thesis
    using h1 h2 h3 gaps run by blast
qed

text \<open>
  Claim C9, as the code has it. \<open>totalFees\<close> is the sum of the absolute values of the
  amounts of the Fee records, whatever their sign; it is never negative, and it is
  non-negative unless the amount of a Fee record is NaN. \<open>totalInjected\<close>, \<open>totalSold\<close> and
  \<open>totalDividends\<close> are the sums of the amounts, as they are signed, of the cash top-ups,
  of the Sell records and of the Dividend records; each is non-negative when each of the
  amounts it adds is.
\<close>

theorem C9_totals_sign:
  "totalFees (calculateAveragePrices ts) = sumOf (map Math_abs (amounts (ofKind Fee ts)))
   \<and> totalInjected (calculateAveragePrices ts) = sumOf (amounts (ofKind CashTopUp ts))
   \<and> totalSold (calculateAveragePrices ts) = sumOf (amounts (ofKind Sell ts))
   \<and> totalDividends (calculateAveragePrices ts) = sumOf (amounts (ofKind Dividend ts))
   \<and> \<not> lt_zero (totalFees (calculateAveragePrices ts))
   \<and> (list_all (\<lambda>t. totalAmount t \<noteq> NaN) (ofKind Fee ts)
        \<longrightarrow> less_eq_num (Fin 0) (totalFees (calculateAveragePrices ts)))
   \<and> (list_all (\<lambda>t. less_eq_num (Fin 0) (totalAmount t)) (ofKind CashTopUp ts)
        \<longrightarrow> less_eq_num (Fin 0) (totalInjected (calculateAveragePrices ts)))
   \<and> (list_all (\<lambda>t. less_eq_num (Fin 0) (totalAmount t)) (ofKind Sell ts)
        \<longrightarrow> less_eq_num (Fin 0) (totalSold (calculateAveragePrices ts)))
   \<and> (list_all (\<lambda>t. less_eq_num (Fin 0) (totalAmount t)) (ofKind Dividend ts)
        \<longrightarrow> less_eq_num (Fin 0) (totalDividends (calculateAveragePrices ts)))"
proof -
  have "list_all (\<lambda>x. \<not> lt_zero x) (map Math_abs xs)" for xs
    by (induction xs) (simp_all add: not_lt_zero_abs)
  then have never: "\<not> lt_zero (totalFees (calculateAveragePrices ts))"
    by (simp add: totals_calculate not_lt_zero_sumOf)
  have signed: "less_eq_num (Fin 0) (sumOf (amounts (ofKind k ts)))"
    if "list_all (\<lambda>t. less_eq_num (Fin 0) (totalAmount t)) (ofKind k ts)" for k
    using that by (simp add: ge_zero_sumOf list_all_amounts)
  show ?thesis
    using never signed by (simp add: totals_calculate ge_zero_sumOf list_all_abs_amounts)
qed

theorem C9_totals_sign_witness:
  "list_all (\<lambda>t. totalAmount t \<noteq> NaN) (ofKind Fee scenario)
   \<and> list_all (\<lambda>t. less_eq_num (Fin 0) (totalAmount t)) (ofKind CashTopUp scenario)
   \<and> list_all (\<lambda>t. less_eq_num (Fin 0) (totalAmount t)) (ofKind Sell scenario)
   \<and> list_all (\<lambda>t. less_eq_num (Fin 0) (totalAmount t)) (ofKind Dividend scenario)
   \<and> less_eq_num (Fin 0) (totalFees (calculateAveragePrices scenario))
   \<and> less_eq_num (Fin 0) (totalInjected (calculateAveragePrices scenario))
   \<and> less_eq_num (Fin 0) (totalSold (calculateAveragePrices scenario))
   \<and> less_eq_num (Fin 0) (totalDividends (calculateAveragePrices scenario))"
proof -
  have h: "list_all (\<lambda>t. totalAmount t \<noteq> NaN) (ofKind Fee scenario)"
    "list_all (\<lambda>t. less_eq_num (Fin 0) (totalAmount t)) (ofKind CashTopUp scenario)"
    "list_all (\<lambda>t. less_eq_num (Fin 0) (totalAmount t)) (ofKind Sell scenario)"
    "list_all (\<lambda>t. less_eq_num (Fin 0) (totalAmount t)) (ofKind Dividend scenario)"
    by code_simp+
  show ?thesis
    using h C9_totals_sign [of scenario] by blast
qed

text \<open>
  The claim as stated has all four totals non-negative on every input. A dividend of -1
  gives a total of dividends of -1, and a fee whose amount did not parse gives a total of
  fees of NaN, which is not greater than or equal to zero.
\<close>

theorem C9_counterexample:
  "totalDividends (calculateAveragePrices [negativeDividend]) = Fin (- 1)
   \<and> \<not> less_eq_num (Fin 0) (totalDividends (calculateAveragePrices [negativeDividend]))
   \<and> totalFees (calculateAveragePrices [feeNaN]) = NaN
   \<and> \<not> less_eq_num (Fin 0) (totalFees (calculateAveragePrices [feeNaN]))"
  by code_simp

text \<open>
  Claim C10, as the code has it. A record with ticker \<^verbatim>\<open>EUR\<close> and type \<^verbatim>\<open>BUY\<close>, whatever
  row it came from, is added to \<open>totalInjected\<close> and changes neither the ticker statistics
  nor positions. Hence \<^verbatim>\<open>EUR\<close> has no bought quantity, and it is in positions only when
  the quantities of the Sell records with ticker \<^verbatim>\<open>EUR\<close> sum to a negative number.
\<close>

theorem C10_eur_buy:
  "(ticker t = Val (str ''EUR'') \<and> type t = str ''BUY'' \<longrightarrow>
      step acc t = acc\<lparr>totalInjected := add (totalInjected acc) (totalAmount t)\<rparr>
      \<and> positions (calculateAveragePrices (before @ t # after))
          = positions (calculateAveragePrices (before @ after))
      \<and> totalInjected (calculateAveragePrices (before @ t # after))
          = foldl add (add (totalInjected (calculateAveragePrices before)) (totalAmount t))
              (amounts (ofKind CashTopUp after)))
   \<and> (map_of (positions (calculateAveragePrices ts)) (str ''EUR'') = Some p \<longrightarrow>
        lt_zero (sumOf (quantities (ofTicker (str ''EUR'') (ofKind Sell ts)))))"
proof -
  have "lt_zero (sumOf (quantities (ofTicker (str ''EUR'') (ofKind Sell ts))))"
    if "map_of (positions (calculateAveragePrices ts)) (str ''EUR'') = Some p"
  proof -
    have "gt_zero (sub (Fin 0) (sumOf (quantities (ofTicker (str ''EUR'') (ofKind Sell ts)))))"
      using that
      by (simp add: positions_calculate positionOf_def statsOf_def no_Buy_of_EUR quantities_def
          sumOf_Nil split: if_splits)
    then show ?thesis
      by (rule gt_zero_sub_zero)
  qed
  then show ?thesis
    by (simp add: kindOf_CashTopUp [symmetric] step_CashTopUp calculate_skip_CashTopUp
        totalInjected_insert)
qed

theorem C10_eur_buy_witness:
  "ticker cashTopUp100 = Val (str ''EUR'') \<and> type cashTopUp100 = str ''BUY''
   \<and> step initial cashTopUp100 = initial\<lparr>totalInjected := add (totalInjected initial) (totalAmount cashTopUp100)\<rparr>
   \<and> positions (calculateAveragePrices ([buyA] @ cashTopUp100 # [sellA]))
        = positions (calculateAveragePrices ([buyA] @ [sellA]))
   \<and> totalInjected (calculateAveragePrices ([buyA] @ cashTopUp100 # [sellA]))
        = foldl add (add (totalInjected (calculateAveragePrices [buyA])) (totalAmount cashTopUp100))
            (amounts (ofKind CashTopUp [sellA]))
   \<and> map_of (positions (calculateAveragePrices [cashTopUp100, sellEurNegative])) (str ''EUR'')
        = Some \<lparr>averagePrice = NaN, totalQuantity = Fin 1\<rparr>
   \<and> lt_zero (sumOf (quantities (ofTicker (str ''EUR'') (ofKind Sell [cashTopUp100, sellEurNegative]))))"
proof -
  have h1: "ticker cashTopUp100 = Val (str ''EUR'') \<and> type cashTopUp100 = str ''BUY''"
    by (simp add: cashTopUp100_def)
  have h2: "map_of (positions (calculateAveragePrices [cashTopUp100, sellEurNegative])) (str ''EUR'')
        = Some \<lparr>averagePrice = NaN, totalQuantity = Fin 1\<rparr>"
    by code_simp
  show ?thesis
    using h1 h2
      C10_eur_buy [of cashTopUp100 initial "[buyA]" "[sellA]" "[cashTopUp100, sellEurNegative]"
        "\<lparr>averagePrice = NaN, totalQuantity = Fin 1\<rparr>"]
    by blast
qed

text \<open>
  The claim as stated says that the ticker \<^verbatim>\<open>EUR\<close> never produces a position. A Sell
  of -1 \<^verbatim>\<open>EUR\<close> does, with an average price of NaN.
\<close>

theorem C10_counterexample:
  "calculateAveragePrices [cashTopUp100, sellEurNegative] =
     \<lparr>totalInjected = Fin 100, totalSold = Fin (- 1), totalDividends = Fin 0, totalFees = Fin 0,
      positions = [(str ''EUR'', \<lparr>averagePrice = NaN, totalQuantity = Fin 1\<rparr>)]\<rparr>"
  by code_simp

end
